theory Spec2Isabelle
  imports Complex_Main "HOL-Library.Multiset"
begin

section \<open>The training orchestrator of \<open>train.py\<close>\<close>

text \<open>
  A shallow embedding of \<open>src/train.py\<close>: the class \<open>Trainer\<close> (checkpoint save and
  load, the submodule pre-training routine, the epoch loop) and the function \<open>main\<close>.
  Python's floats are read as exact rationals. The collaborators (the network, the loss
  functions, autograd and Adam's update, the metric functions, the data set) are
  parameters of the model, collected in the record \<open>ops\<close>; what the orchestrator asks
  of them is recorded in the state (the trace \<open>events\<close>, the file system \<open>fs\<close>).
\<close>

subsection \<open>Errors\<close>

datatype error =
    ValueError string
  | ZeroDivisionError
  | FileNotFoundError string
  | CollaboratorError string

subsection \<open>The adversarial ramp (\<open>train\<close>, line 100)\<close>

text \<open>
  \<open>adv_loss_multiplier = min(1, adv_iter / self.hyperparams.adv_grad_iter)\<close>.
  Python's \<open>/\<close> raises \<open>ZeroDivisionError\<close> on a zero divisor; \<open>min(1, x)\<close> is \<open>x\<close>
  when \<open>x < 1\<close> and \<open>1\<close> otherwise.
\<close>

definition true_div :: "rat \<Rightarrow> rat \<Rightarrow> error + rat" where
  "true_div a b = (if b = 0 then Inl ZeroDivisionError else Inr (a / b))"

definition py_min :: "rat \<Rightarrow> rat \<Rightarrow> rat" where
  "py_min a b = (if b < a then b else a)"

definition adv_loss_multiplier :: "nat \<Rightarrow> int \<Rightarrow> error + rat" where
  "adv_loss_multiplier adv_iter adv_grad_iter =
     (case true_div (of_nat adv_iter) (of_int adv_grad_iter) of
        Inl e \<Rightarrow> Inl e
      | Inr q \<Rightarrow> Inr (py_min 1 q))"

subsection \<open>Tensors, batches, optimizer state, checkpoints\<close>

datatype device = CPU | CUDA

record tensor =
  vals :: "rat list"
  dev :: device

text \<open>\<open>x.to(device)\<close>\<close>

definition to_dev :: "device \<Rightarrow> tensor \<Rightarrow> tensor" where
  "to_dev d x = x\<lparr>dev := d\<rparr>"

text \<open>
  A batch is what the loader yields; the loops unpack it into four tensors, which raises
  \<open>ValueError\<close> when it does not hold exactly four.
\<close>

type_synonym batch = "tensor list"

definition unpack4 :: "batch \<Rightarrow> error + (tensor \<times> tensor \<times> tensor \<times> tensor)" where
  "unpack4 b =
     (case b of
        [x1, x2, x3, x4] \<Rightarrow> Inr (x1, x2, x3, x4)
      | _ \<Rightarrow> if length b < 4 then Inl (ValueError ''not enough values to unpack'')
             else Inl (ValueError ''too many values to unpack''))"

text \<open>
  An entry of one of the optimizer's per-parameter state dicts: a tensor
  (\<open>torch.is_tensor(v)\<close>) or some other value.
\<close>

datatype entry = TensorV tensor | OtherV rat

record param_group =
  pg_params :: "nat list"
  pg_lr :: rat

text \<open>
  \<open>optimizer.state\<close> maps a parameter to its state dict; \<open>state_dict()\<close> and
  \<open>load_state_dict\<close> carry the state and the parameter groups as they are.
\<close>

record optimizer =
  opt_state :: "nat \<rightharpoonup> (string \<rightharpoonup> entry)"
  param_groups :: "param_group list"

record checkpoint =
  ck_epoch :: int
  ck_model :: "string \<rightharpoonup> tensor"
  ck_optimizer :: optimizer

subsection \<open>Configuration\<close>

record cfg =
  cfg_model :: string
  cfg_run_name :: string
  cfg_split :: string
  cfg_random_seed :: int
  cfg_log_to_wandb :: bool
  cfg_train_singing :: bool
  cfg_load_checkpoint :: string

text \<open>\<open>mlp_hidden_size\<close> is the string \<open>'default'\<close> (here \<open>None\<close>) or a size.\<close>

record hyperparams =
  hp_num_epochs :: int
  hp_train_adv :: bool
  hp_adv_grad_iter :: int
  hp_lr :: rat
  hp_adv_lr_multiplier :: rat
  hp_adv_grad_multiplier :: rat
  hp_mixup_prob :: rat
  hp_mixup_alpha :: rat
  hp_hidden_size :: int
  hp_num_layers :: int
  hp_mlp_hidden_size :: "int option"

subsection \<open>The state of a run\<close>

text \<open>
  What the orchestrator does to the outside: calls to the experiment tracker, to autograd
  and the optimizer, and to \<open>torch.save\<close>, in the order they are made.
\<close>

datatype event =
    WandbInit string
  | WandbLog "(string \<times> rat) list" "nat option"
  | WandbFinish
  | ZeroGrad
  | Backward rat
  | ClipGradNorm rat
  | OptimizerStep
  | TorchSave string

text \<open>
  The attributes of a \<open>Trainer\<close> (the model as its parameter values, its
  \<open>train()\<close>/\<open>eval()\<close> mode and whether the backbone is frozen; the data set as its mixup
  switch; the loaders as the batches an iteration yields), the two local counters of
  \<open>train\<close>, the checkpoint files and the trace of events.
\<close>

record trainer =
  model_state :: "string \<rightharpoonup> tensor"
  model_training :: bool
  backbone_frozen :: bool
  optimizer :: optimizer
  mixup :: bool
  train_loader :: "batch list"
  valid_loader :: "batch list"
  device :: device
  cfg :: cfg
  hyperparams :: hyperparams
  cur_epoch :: int
  num_iter :: nat
  adv_iter :: nat
  fs :: "string \<rightharpoonup> checkpoint"
  events :: "event list"

definition emit :: "event \<Rightarrow> trainer \<Rightarrow> trainer" where
  "emit e t = t\<lparr>events := events t @ [e]\<rparr>"

text \<open>
  The collaborators: the network's forward pass (which may raise), the two loss
  functions, the axis permutation \<open>permute(0, 2, 1)\<close>, the update that
  \<open>zero_grad(); loss.backward(); clip_grad_norm_(..., 1); optimizer.step()\<close> makes to the
  parameters and the optimizer in a given state, on a given batch and loss, and the two
  metric functions of \<open>data_utils\<close>.
\<close>

record ops =
  forward :: "(string \<rightharpoonup> tensor) \<Rightarrow> bool \<Rightarrow> tensor
                \<Rightarrow> error + (tensor \<times> tensor \<times> tensor)"
  bce :: "tensor \<Rightarrow> tensor \<Rightarrow> rat"
  ce :: "tensor \<Rightarrow> tensor \<Rightarrow> rat"
  permute :: "tensor \<Rightarrow> tensor"
  optimizer_step :: "trainer \<Rightarrow> batch \<Rightarrow> rat \<Rightarrow> (string \<rightharpoonup> tensor) \<times> optimizer"
  get_binary_f1 :: "tensor \<Rightarrow> tensor \<Rightarrow> rat \<Rightarrow> rat \<times> rat \<times> rat"
  get_multiclass_acc :: "tensor \<Rightarrow> tensor \<Rightarrow> rat"

subsection \<open>Decimal text of an integer (\<open>str\<close>, as the f-string formats the epoch)\<close>

definition digit_char :: "nat \<Rightarrow> char" where
  "digit_char d = ''0123456789'' ! d"

fun str_nat :: "nat \<Rightarrow> string" where
  "str_nat n = (if n < 10 then [digit_char n] else str_nat (n div 10) @ [digit_char (n mod 10)])"

declare str_nat.simps [simp del]

definition str_int :: "int \<Rightarrow> string" where
  "str_int i = (if i < 0 then CHR ''-'' # str_nat (nat (- i)) else str_nat (nat i))"

subsection \<open>\<open>Trainer.save_checkpoint\<close> and \<open>Trainer.load_checkpoint\<close>\<close>

text \<open>
  \<open>Path(f"checkpoints/{cfg.model}") / f"{cfg.run_name}_epoch{cur_epoch}.pt"\<close>; the run
  name is taken to be a plain file name.
\<close>

definition ckpt_path :: "cfg \<Rightarrow> int \<Rightarrow> string" where
  "ckpt_path c e =
     (''checkpoints/'' @ cfg_model c) @ ''/'' @ (cfg_run_name c @ ''_epoch'' @ str_int e @ ''.pt'')"

definition save_checkpoint :: "trainer \<Rightarrow> trainer" where
  "save_checkpoint t =
     (let ckpt = \<lparr>ck_epoch = cur_epoch t, ck_model = model_state t,
                  ck_optimizer = optimizer t\<rparr>;
          path = ckpt_path (cfg t) (cur_epoch t)
      in emit (TorchSave path) (t\<lparr>fs := (fs t)(path \<mapsto> ckpt)\<rparr>))"

text \<open>
  The loop of lines 41 to 44: every tensor entry of every state dict is replaced by its
  copy on \<open>self.device\<close>; other entries stay.
\<close>

definition entry_to :: "device \<Rightarrow> entry \<Rightarrow> entry" where
  "entry_to d v = (case v of TensorV x \<Rightarrow> TensorV (to_dev d x) | OtherV r \<Rightarrow> OtherV r)"



subsection \<open>Loops and the optimisation step\<close>

text \<open>
  A \<open>for\<close> loop whose body may raise: the first exception ends the loop and leaves the
  state as it was when it was raised.
\<close>

fun for_each :: "('a \<Rightarrow> trainer \<Rightarrow> error option \<times> trainer) \<Rightarrow> 'a list \<Rightarrow> trainer
                   \<Rightarrow> error option \<times> trainer" where
  "for_each body [] t = (None, t)"
| "for_each body (x # xs) t =
     (case body x t of
        (Some e, t') \<Rightarrow> (Some e, t')
      | (None, t') \<Rightarrow> for_each body xs t')"

text \<open>
  \<open>self.optimizer.zero_grad(); loss.backward();
  torch.nn.utils.clip_grad_norm_(self.model.parameters(), 1); self.optimizer.step()\<close>
\<close>

definition optimise :: "ops \<Rightarrow> batch \<Rightarrow> rat \<Rightarrow> trainer \<Rightarrow> trainer" where
  "optimise ops b loss t =
     (let t1 = emit ZeroGrad t;
          t2 = emit (Backward loss) t1;
          t3 = emit (ClipGradNorm 1) t2;
          upd = optimizer_step ops t b loss
      in emit OptimizerStep (t3\<lparr>model_state := fst upd, optimizer := snd upd\<rparr>))"

subsection \<open>\<open>Trainer._train_mlp_submodules\<close>\<close>

definition mlp_batch :: "ops \<Rightarrow> bool \<Rightarrow> batch \<Rightarrow> trainer \<Rightarrow> error option \<times> trainer" where
  "mlp_batch ops train_singing b t =
     (case unpack4 b of
        Inl e \<Rightarrow> (Some e, t)
      | Inr (cqt, _, singing_gt, version_gt) \<Rightarrow>
          (let cqt = to_dev (device t) cqt;
               singing_gt = to_dev (device t) singing_gt;
               version_gt = to_dev (device t) version_gt
           in case forward ops (model_state t) (model_training t) cqt of
                Inl e \<Rightarrow> (Some e, t)
              | Inr (_, singing_pred, version_pred) \<Rightarrow>
                  (let version_pred = permute ops version_pred;
                       loss = ce ops version_pred version_gt;
                       loss = (if train_singing then loss + bce ops singing_pred singing_gt
                               else loss)
                   in (None, optimise ops b loss t))))"

definition train_mlp_submodules :: "ops \<Rightarrow> int \<Rightarrow> bool \<Rightarrow> trainer \<Rightarrow> error option \<times> trainer" where
  "train_mlp_submodules ops num_epochs train_singing t =
     (let t1 = t\<lparr>model_training := True\<rparr>;
          t2 = t1\<lparr>backbone_frozen := True\<rparr>;
          t3 = t2\<lparr>mixup := True\<rparr>
      in case for_each (\<lambda>epoch u. for_each (mlp_batch ops train_singing) (train_loader u) u)
                [0..<nat num_epochs] t3 of
           (Some e, t') \<Rightarrow> (Some e, t')
         | (None, t') \<Rightarrow> (None, t'\<lparr>backbone_frozen := False\<rparr>))"

subsection \<open>\<open>Trainer.train\<close>\<close>

text \<open>
  The logging of a training step (lines 111 to 120). \<open>loss\<close> and \<open>leitmotif_loss\<close> are
  one tensor object, and so are \<open>adv_loss\<close> and \<open>version_loss\<close>; \<open>+=\<close> on a tensor adds
  in place, so \<open>.item()\<close> of either name reads the sum. The caller passes the values
  that \<open>.item()\<close> returns at this point.
\<close>

definition log_train_step ::
  "ops \<Rightarrow> tensor \<Rightarrow> tensor \<Rightarrow> rat \<Rightarrow> rat \<Rightarrow> trainer \<Rightarrow> trainer" where
  "log_train_step ops leitmotif_pred leitmotif_gt leitmotif_loss_item loss_item t =
     (case get_binary_f1 ops leitmotif_pred leitmotif_gt (1 / 2) of
        (f1, precision, recall) \<Rightarrow>
          emit (WandbLog [(''train/total_loss'', loss_item)] (Some (num_iter t)))
            (emit (WandbLog [(''train/loss'', leitmotif_loss_item),
                             (''train/precision'', precision),
                             (''train/recall'', recall),
                             (''train/f1'', f1)] (Some (num_iter t))) t))"

definition log_adv_step ::
  "ops \<Rightarrow> tensor \<Rightarrow> tensor \<Rightarrow> rat \<Rightarrow> (tensor \<times> tensor \<times> rat) option \<Rightarrow> trainer \<Rightarrow> trainer" where
  "log_adv_step ops version_pred version_gt version_loss_item singing t =
     (let t1 = emit (WandbLog [(''adv/version_loss'', version_loss_item)] (Some (num_iter t))) t;
          t2 = emit (WandbLog [(''adv/version_acc'', get_multiclass_acc ops version_pred version_gt)]
                      (Some (num_iter t))) t1
      in case singing of
           None \<Rightarrow> t2
         | Some (singing_pred, singing_gt, singing_loss_item) \<Rightarrow>
             (case get_binary_f1 ops singing_pred singing_gt (1 / 2) of
                (f1, precision, recall) \<Rightarrow>
                  emit (WandbLog [(''adv/singing_loss'', singing_loss_item),
                                  (''adv/singing_train_f1'', f1)] (Some (num_iter t))) t2))"

text \<open>The body of the training loop (lines 80 to 121).\<close>

definition train_batch :: "ops \<Rightarrow> batch \<Rightarrow> trainer \<Rightarrow> error option \<times> trainer" where
  "train_batch ops b t =
     (case unpack4 b of
        Inl e \<Rightarrow> (Some e, t)
      | Inr (cqt, leitmotif_gt, singing_gt, version_gt) \<Rightarrow>
          (let cqt = to_dev (device t) cqt;
               leitmotif_gt = to_dev (device t) leitmotif_gt;
               singing_gt = to_dev (device t) singing_gt;
               version_gt = to_dev (device t) version_gt;
               log = cfg_log_to_wandb (cfg t)
           in case forward ops (model_state t) (model_training t) cqt of
                Inl e \<Rightarrow> (Some e, t)
              | Inr (leitmotif_pred, singing_pred, version_pred) \<Rightarrow>
                  (let leitmotif_loss = bce ops leitmotif_pred leitmotif_gt
                   in if hp_train_adv (hyperparams t) then
                        (let version_pred = permute ops version_pred;
                             version_loss = ce ops version_pred version_gt;
                             singing_loss = (if cfg_train_singing (cfg t)
                                             then Some (bce ops singing_pred singing_gt)
                                             else None);
                             adv_loss = (case singing_loss of
                                           None \<Rightarrow> version_loss
                                         | Some sl \<Rightarrow> version_loss + sl)
                         in case adv_loss_multiplier (adv_iter t)
                                   (hp_adv_grad_iter (hyperparams t)) of
                              Inl e \<Rightarrow> (Some e, t)
                            | Inr adv_mult \<Rightarrow>
                                (let loss = leitmotif_loss + adv_mult * adv_loss;
                                     t1 = (if log
                                           then emit (WandbLog [(''adv/loss_multiplier'', adv_mult)]
                                                        (Some (num_iter t))) t
                                           else t);
                                     t2 = t1\<lparr>adv_iter := adv_iter t1 + 1\<rparr>;
                                     t3 = optimise ops b loss t2;
                                     t4 = (if log
                                           then log_adv_step ops version_pred version_gt adv_loss
                                                  (map_option (\<lambda>sl. (singing_pred, singing_gt, sl))
                                                     singing_loss)
                                                  (log_train_step ops leitmotif_pred leitmotif_gt
                                                     loss loss t3)
                                           else t3)
                                 in (None, t4\<lparr>num_iter := num_iter t4 + 1\<rparr>)))
                      else
                        (let loss = leitmotif_loss;
                             t3 = optimise ops b loss t;
                             t4 = (if log
                                   then log_train_step ops leitmotif_pred leitmotif_gt
                                          leitmotif_loss loss t3
                                   else t3)
                         in (None, t4\<lparr>num_iter := num_iter t4 + 1\<rparr>)))))"

text \<open>The body of the validation loop (lines 131 to 143), on the four running sums.\<close>

type_synonym totals = "rat \<times> rat \<times> rat \<times> rat"

definition valid_batch :: "ops \<Rightarrow> trainer \<Rightarrow> batch \<Rightarrow> totals \<Rightarrow> error + totals" where
  "valid_batch ops t b acc =
     (case acc of (total_loss, total_precision, total_recall, total_f1) \<Rightarrow>
        (case unpack4 b of
           Inl e \<Rightarrow> Inl e
         | Inr (cqt, leitmotif_gt, singing_gt, version_gt) \<Rightarrow>
             (let cqt = to_dev (device t) cqt;
                  leitmotif_gt = to_dev (device t) leitmotif_gt;
                  singing_gt = to_dev (device t) singing_gt
              in case forward ops (model_state t) (model_training t) cqt of
                   Inl e \<Rightarrow> Inl e
                 | Inr (leitmotif_pred, singing_pred, version_pred) \<Rightarrow>
                     (let leitmotif_loss = bce ops leitmotif_pred leitmotif_gt;
                          total_loss = total_loss + leitmotif_loss
                      in if cfg_log_to_wandb (cfg t) then
                           (case get_binary_f1 ops leitmotif_pred leitmotif_gt (1 / 2) of
                              (f1, precision, recall) \<Rightarrow>
                                Inr (total_loss, total_precision + precision,
                                     total_recall + recall, total_f1 + f1))
                         else Inr (total_loss, total_precision, total_recall, total_f1)))))"

fun valid_batches :: "ops \<Rightarrow> trainer \<Rightarrow> batch list \<Rightarrow> totals \<Rightarrow> error + totals" where
  "valid_batches ops t [] acc = Inr acc"
| "valid_batches ops t (b # bs) acc =
     (case valid_batch ops t b acc of
        Inl e \<Rightarrow> Inl e
      | Inr acc' \<Rightarrow> valid_batches ops t bs acc')"

text \<open>
  The validation phase (lines 123 to 150): the means are taken, and logged, only when
  logging is on; \<open>len(self.valid_loader)\<close> is the divisor.
\<close>

definition validate :: "ops \<Rightarrow> trainer \<Rightarrow> error option \<times> trainer" where
  "validate ops t =
     (let t1 = t\<lparr>model_training := False\<rparr>;
          t2 = t1\<lparr>mixup := False\<rparr>
      in case valid_batches ops t2 (valid_loader t2) (0, 0, 0, 0) of
           Inl e \<Rightarrow> (Some e, t2)
         | Inr (total_loss, total_precision, total_recall, total_f1) \<Rightarrow>
             if cfg_log_to_wandb (cfg t2) then
               (let n = of_nat (length (valid_loader t2))
                in case true_div total_loss n of
                     Inl e \<Rightarrow> (Some e, t2)
                   | Inr avg_loss \<Rightarrow>
                 (case true_div total_precision n of
                     Inl e \<Rightarrow> (Some e, t2)
                   | Inr avg_precision \<Rightarrow>
                 (case true_div total_recall n of
                     Inl e \<Rightarrow> (Some e, t2)
                   | Inr avg_recall \<Rightarrow>
                 (case true_div total_f1 n of
                     Inl e \<Rightarrow> (Some e, t2)
                   | Inr avg_f1 \<Rightarrow>
                       (None, emit (WandbLog [(''valid/loss'', avg_loss),
                                              (''valid/precision'', avg_precision),
                                              (''valid/recall'', avg_recall),
                                              (''valid/f1'', avg_f1)] None) t2)))))
             else (None, t2))"

text \<open>One pass of the epoch loop (lines 76 to 152).\<close>

definition train_epoch :: "ops \<Rightarrow> int \<Rightarrow> trainer \<Rightarrow> error option \<times> trainer" where
  "train_epoch ops epoch t =
     (let t1 = t\<lparr>cur_epoch := epoch\<rparr>;
          t2 = t1\<lparr>model_training := True\<rparr>;
          t3 = t2\<lparr>mixup := True\<rparr>
      in case for_each (train_batch ops) (train_loader t3) t3 of
           (Some e, t') \<Rightarrow> (Some e, t')
         | (None, t4) \<Rightarrow>
             (case validate ops t4 of
                (Some e, t') \<Rightarrow> (Some e, t')
              | (None, t5) \<Rightarrow> (None, save_checkpoint t5)))"

text \<open>\<open>self.model.to(self.device)\<close>\<close>

definition model_to :: "device \<Rightarrow> (string \<rightharpoonup> tensor) \<Rightarrow> (string \<rightharpoonup> tensor)" where
  "model_to d ms = (\<lambda>k. map_option (to_dev d) (ms k))"

text \<open>
  \<open>range(self.cur_epoch, self.hyperparams.num_epochs)\<close> is the list of the integers from
  \<open>cur_epoch\<close> up to \<open>num_epochs - 1\<close>, fixed when the loop starts.
\<close>

definition train :: "ops \<Rightarrow> trainer \<Rightarrow> error option \<times> trainer" where
  "train ops t =
     (let t1 = (if cfg_log_to_wandb (cfg t) then emit (WandbInit (cfg_run_name (cfg t))) t
                else t);
          t2 = t1\<lparr>model_state := model_to (device t1) (model_state t1)\<rparr>;
          t3 = t2\<lparr>num_iter := 0\<rparr>;
          t4 = t3\<lparr>adv_iter := 0\<rparr>
      in case for_each (train_epoch ops) [cur_epoch t4..hp_num_epochs (hyperparams t4) - 1] t4 of
           (Some e, t') \<Rightarrow> (Some e, t')
         | (None, t5) \<Rightarrow>
             (None, if cfg_log_to_wandb (cfg t5) then emit WandbFinish t5 else t5))"

subsection \<open>\<open>main\<close>\<close>

text \<open>
  A network as \<open>main\<close> sees it: its named parameters (a name and the identity of the
  parameter object) and its parameter values.
\<close>

record net =
  named_parameters :: "(string \<times> nat) list"
  state_dict :: "string \<rightharpoonup> tensor"

text \<open>
  What \<open>main\<close> obtains from outside: whether CUDA is there, the batches of the training
  and validation loaders for either split, the mixup switch of the fresh data set, and
  the two network constructors.
\<close>

record world =
  cuda_is_available :: bool
  version_loaders :: "batch list \<times> batch list"
  act_loaders :: "batch list \<times> batch list"
  dataset_mixup :: bool
  RNNModel :: "int \<Rightarrow> int option \<Rightarrow> int \<Rightarrow> rat \<Rightarrow> net"
  CNNModel :: "int option \<Rightarrow> rat \<Rightarrow> net"

text \<open>Python's \<open>sub in s\<close> on strings.\<close>

fun str_in :: "string \<Rightarrow> string \<Rightarrow> bool" where
  "str_in sub [] = (sub = [])"
| "str_in sub (c # cs) = (take (length sub) (c # cs) = sub \<or> str_in sub cs)"

definition mlp_params :: "(string \<times> nat) list \<Rightarrow> nat list" where
  "mlp_params nps = map snd (filter (\<lambda>(name, param). str_in ''mlp'' name) nps)"

definition backbone_params :: "(string \<times> nat) list \<Rightarrow> nat list" where
  "backbone_params nps = map snd (filter (\<lambda>(name, param). \<not> str_in ''mlp'' name) nps)"

text \<open>\<open>torch.optim.Adam\<close> of a list of parameter groups: no state yet.\<close>

definition Adam :: "param_group list \<Rightarrow> optimizer" where
  "Adam groups = \<lparr>opt_state = Map.empty, param_groups = groups\<rparr>"

text \<open>Lines 203 to 208.\<close>

definition make_optimizer :: "hyperparams \<Rightarrow> net \<Rightarrow> optimizer" where
  "make_optimizer hp model =
     Adam [\<lparr>pg_params = mlp_params (named_parameters model),
            pg_lr = hp_lr hp * hp_adv_lr_multiplier hp\<rparr>,
           \<lparr>pg_params = backbone_params (named_parameters model),
            pg_lr = hp_lr hp\<rparr>]"

text \<open>\<open>Trainer.__init__\<close>, on a fresh network (in training mode, nothing frozen).\<close>

definition Trainer ::
  "net \<Rightarrow> optimizer \<Rightarrow> bool \<Rightarrow> batch list \<Rightarrow> batch list \<Rightarrow> device \<Rightarrow> cfg \<Rightarrow> hyperparams
     \<Rightarrow> (string \<rightharpoonup> checkpoint) \<Rightarrow> trainer" where
  "Trainer model opt ds_mixup train_l valid_l d c hp files =
     \<lparr>model_state = state_dict model, model_training = True, backbone_frozen = False,
      optimizer = opt, mixup = ds_mixup, train_loader = train_l, valid_loader = valid_l,
      device = d, cfg = c, hyperparams = hp, cur_epoch = 0, num_iter = 0, adv_iter = 0,
      fs = files, events = []\<rparr>"

text \<open>Lines 170 to 177: the two loaders, or \<open>ValueError\<close>.\<close>

definition select_split :: "world \<Rightarrow> cfg \<Rightarrow> error + (batch list \<times> batch list)" where
  "select_split w c =
     (if cfg_split c = ''version'' then Inr (version_loaders w)
      else if cfg_split c = ''act'' then Inr (act_loaders w)
      else Inl (ValueError ''Invalid split method''))"

text \<open>Lines 183 to 201: the network, or \<open>ValueError\<close>.\<close>

definition select_model :: "world \<Rightarrow> cfg \<Rightarrow> hyperparams \<Rightarrow> error + net" where
  "select_model w c hp =
     (if cfg_model c = ''RNN'' then
        (case hp_mlp_hidden_size hp of
           Some m \<Rightarrow> Inr (RNNModel w (hp_hidden_size hp) (Some m) (hp_num_layers hp)
                           (hp_adv_grad_multiplier hp))
         | None \<Rightarrow> Inr (RNNModel w (hp_hidden_size hp) None (hp_num_layers hp)
                         (hp_adv_grad_multiplier hp)))
      else if cfg_model c = ''CNN'' then
        (case hp_mlp_hidden_size hp of
           Some m \<Rightarrow> Inr (CNNModel w (Some m) (hp_adv_grad_multiplier hp))
         | None \<Rightarrow> Inr (CNNModel w None (hp_adv_grad_multiplier hp)))
      else Inl (ValueError ''Invalid model name''))"

text \<open>
  \<open>main\<close>, run on the checkpoint files \<open>files\<close>: the exception it ends with, if any, the
  files afterwards, and the trace of events.
\<close>

definition main ::
  "ops \<Rightarrow> world \<Rightarrow> cfg \<Rightarrow> hyperparams \<Rightarrow> (string \<rightharpoonup> checkpoint)
     \<Rightarrow> error option \<times> (string \<rightharpoonup> checkpoint) \<times> event list" where
  "main ops w c hp files =
     (let DEV = (if cuda_is_available w then CUDA else CPU)
      in case select_split w c of
           Inl e \<Rightarrow> (Some e, files, [])
         | Inr (train_l, valid_l) \<Rightarrow>
             (case select_model w c hp of
                Inl e \<Rightarrow> (Some e, files, [])
              | Inr model \<Rightarrow>
                  (let opt = make_optimizer hp model;
                       trainer = Trainer model opt (dataset_mixup w) train_l valid_l DEV c hp files
                   in case train ops trainer of
                        (r, t') \<Rightarrow> (r, fs t', events t'))))"

subsection \<open>Reading the trace\<close>

text \<open>
  The losses handed to \<open>backward\<close>, the number of optimizer steps and the paths given
  to \<open>torch.save\<close>, in the order of the trace.
\<close>

fun backward_losses :: "event list \<Rightarrow> rat list" where
  "backward_losses [] = []"
| "backward_losses (Backward l # es) = l # backward_losses es"
| "backward_losses (_ # es) = backward_losses es"

fun optimizer_steps :: "event list \<Rightarrow> nat" where
  "optimizer_steps [] = 0"
| "optimizer_steps (OptimizerStep # es) = Suc (optimizer_steps es)"
| "optimizer_steps (_ # es) = optimizer_steps es"

fun saved_paths :: "event list \<Rightarrow> string list" where
  "saved_paths [] = []"
| "saved_paths (TorchSave p # es) = p # saved_paths es"
| "saved_paths (_ # es) = saved_paths es"

text \<open>
  The numeric content of an optimizer state, whatever device its tensors are on, and
  the entry of a parameter's state dict under a key.
\<close>

definition entry_data :: "entry \<Rightarrow> rat list + rat" where
  "entry_data v = (case v of TensorV x \<Rightarrow> Inl (vals x) | OtherV r \<Rightarrow> Inr r)"



subsection \<open>Example inputs\<close>

text \<open>
  A small run: one parameter, a one-element tensor for every input, a forward pass that
  returns its input three times, losses that sum the prediction's values, and an
  optimizer step that changes nothing.
\<close>

definition ex_tensor :: tensor where
  "ex_tensor = \<lparr>vals = [1], dev = CPU\<rparr>"

definition ex_batch :: batch where
  "ex_batch = [ex_tensor, ex_tensor, ex_tensor, ex_tensor]"

definition ex_ops :: ops where
  "ex_ops = \<lparr>forward = (\<lambda>ms m x. Inr (x, x, x)),
             bce = (\<lambda>p g. sum_list (vals p)),
             ce = (\<lambda>p g. 2 * sum_list (vals p)),
             permute = (\<lambda>x. x),
             optimizer_step = (\<lambda>t b l. (model_state t, optimizer t)),
             get_binary_f1 = (\<lambda>p g th. (0, 0, 0)),
             get_multiclass_acc = (\<lambda>p g. 0)\<rparr>"

definition ex_cfg :: cfg where
  "ex_cfg = \<lparr>cfg_model = ''RNN'', cfg_run_name = ''run'', cfg_split = ''version'',
             cfg_random_seed = 0, cfg_log_to_wandb = False, cfg_train_singing = True,
             cfg_load_checkpoint = ''checkpoints/RNN/run_epoch1.pt''\<rparr>"

definition ex_hp :: hyperparams where
  "ex_hp = \<lparr>hp_num_epochs = 2, hp_train_adv = True, hp_adv_grad_iter = 4,
            hp_lr = 1 / 1000, hp_adv_lr_multiplier = 10, hp_adv_grad_multiplier = 1,
            hp_mixup_prob = 0, hp_mixup_alpha = 1, hp_hidden_size = 8, hp_num_layers = 1,
            hp_mlp_hidden_size = None\<rparr>"

definition ex_trainer :: trainer where
  "ex_trainer = \<lparr>model_state = [''mlp.w'' \<mapsto> ex_tensor], model_training = True,
                 backbone_frozen = False,
                 optimizer = \<lparr>opt_state = [0 \<mapsto> [''exp_avg'' \<mapsto> TensorV ex_tensor,
                                                       ''step'' \<mapsto> OtherV 1]],
                              param_groups = [\<lparr>pg_params = [0], pg_lr = 1 / 100\<rparr>,
                                              \<lparr>pg_params = [], pg_lr = 1 / 1000\<rparr>]\<rparr>,
                 mixup = False, train_loader = [ex_batch], valid_loader = [],
                 device = CUDA, cfg = ex_cfg, hyperparams = ex_hp, cur_epoch = 0,
                 num_iter = 0, adv_iter = 0, fs = Map.empty, events = []\<rparr>"

text \<open>A batch that the loader should never yield: two tensors instead of four.\<close>

definition ex_short_batch :: batch where
  "ex_short_batch = [ex_tensor, ex_tensor]"




definition ex_net :: net where
  "ex_net = \<lparr>named_parameters = [(''rnn.weight'', 0), (''singing_mlp.weight'', 1),
                                  (''cnn.bias'', 2), (''version_mlp.bias'', 3)],
             state_dict = [''rnn.weight'' \<mapsto> ex_tensor]\<rparr>"

definition ex_world :: world where
  "ex_world = \<lparr>cuda_is_available = False, version_loaders = ([ex_batch], [ex_batch]),
               act_loaders = ([ex_batch], []), dataset_mixup = False,
               RNNModel = (\<lambda>hs ms nl ag. ex_net), CNNModel = (\<lambda>ms ag. ex_net)\<rparr>"

section \<open>Properties\<close>

subsection \<open>The ramp multiplier\<close>

lemma adv_loss_multiplier_pos:
  "0 < n \<Longrightarrow> adv_loss_multiplier s n = Inr (min 1 (of_nat s / of_int n))"
  by (simp add: adv_loss_multiplier_def true_div_def py_min_def min_def)

text \<open>
  C1. For a positive ramp length \<open>n\<close> the multiplier at step count \<open>s\<close> is defined and is
  \<open>min 1 (s / n)\<close>: it is \<open>s / n\<close> while \<open>s < n\<close>, exactly \<open>1\<close> from \<open>s = n\<close> on, and it
  never decreases when \<open>s\<close> grows.
\<close>

theorem ramp_multiplier:
  assumes "0 < n"
  shows "\<exists>m. adv_loss_multiplier s n = Inr m
           \<and> m = min 1 (of_nat s / of_int n)
           \<and> (int s < n \<longrightarrow> m = of_nat s / of_int n)
           \<and> (n \<le> int s \<longrightarrow> m = 1)
           \<and> (\<forall>s' m'. s \<le> s' \<and> adv_loss_multiplier s' n = Inr m' \<longrightarrow> m \<le> m')"
proof -
  have n0: "(0::rat) < of_int n" using assms by simp
  have lt: "int s < n \<Longrightarrow> (of_nat s / of_int n :: rat) < 1"
  proof -
    assume "int s < n"
    then have "(of_int (int s) :: rat) < of_int n" by (simp only: of_int_less_iff)
    then show ?thesis using n0 by simp
  qed
  have ge: "n \<le> int s \<Longrightarrow> (1::rat) \<le> of_nat s / of_int n"
  proof -
    assume "n \<le> int s"
    then have "(of_int n :: rat) \<le> of_int (int s)" by (simp only: of_int_le_iff)
    then show ?thesis using n0 by simp
  qed
  have mono: "\<And>s'. s \<le> s' \<Longrightarrow>
      min 1 (of_nat s / of_int n :: rat) \<le> min 1 (of_nat s' / of_int n)"
  proof -
    fix s' :: nat
    assume "s \<le> s'"
    then have "(of_nat s / of_int n :: rat) \<le> of_nat s' / of_int n"
      using n0 by (simp add: divide_le_cancel)
    then show "min 1 (of_nat s / of_int n :: rat) \<le> min 1 (of_nat s' / of_int n)"
      by (rule min.mono [OF order_refl])
  qed
  have a: "int s < n \<longrightarrow> min 1 (of_nat s / of_int n :: rat) = of_nat s / of_int n"
    using lt by (simp add: min_def)
  have b: "n \<le> int s \<longrightarrow> min 1 (of_nat s / of_int n :: rat) = 1"
    using ge by (simp add: min_def)
  show ?thesis
    using a b mono by (simp add: adv_loss_multiplier_pos [OF assms])
qed

theorem ramp_multiplier_witness:
  "(0::int) < 100
   \<and> adv_loss_multiplier 0 100 = Inr 0
   \<and> adv_loss_multiplier 50 100 = Inr (1 / 2)
   \<and> adv_loss_multiplier 100 100 = Inr 1
   \<and> adv_loss_multiplier 250 100 = Inr 1"
  using ramp_multiplier [of 100 0] ramp_multiplier [of 100 50]
    ramp_multiplier [of 100 100] ramp_multiplier [of 100 250]
  by (simp add: adv_loss_multiplier_def true_div_def py_min_def)

subsection \<open>Frame lemmas\<close>

lemmas ex_defs = ex_tensor_def ex_batch_def ex_ops_def ex_cfg_def ex_hp_def ex_trainer_def

lemma backward_losses_append [simp]:
  "backward_losses (xs @ ys) = backward_losses xs @ backward_losses ys"
  by (induction xs rule: backward_losses.induct) simp_all

lemma optimizer_steps_append [simp]:
  "optimizer_steps (xs @ ys) = optimizer_steps xs + optimizer_steps ys"
  by (induction xs rule: optimizer_steps.induct) simp_all

lemma saved_paths_append [simp]:
  "saved_paths (xs @ ys) = saved_paths xs @ saved_paths ys"
  by (induction xs rule: saved_paths.induct) simp_all

lemma emit_fields [simp]:
  "model_state (emit e t) = model_state t"
  "model_training (emit e t) = model_training t"
  "backbone_frozen (emit e t) = backbone_frozen t"
  "optimizer (emit e t) = optimizer t"
  "mixup (emit e t) = mixup t"
  "train_loader (emit e t) = train_loader t"
  "valid_loader (emit e t) = valid_loader t"
  "device (emit e t) = device t"
  "cfg (emit e t) = cfg t"
  "hyperparams (emit e t) = hyperparams t"
  "cur_epoch (emit e t) = cur_epoch t"
  "num_iter (emit e t) = num_iter t"
  "adv_iter (emit e t) = adv_iter t"
  "fs (emit e t) = fs t"
  "events (emit e t) = events t @ [e]"
  by (simp_all add: emit_def)

lemma optimise_fields [simp]:
  "model_state (optimise ops b l t) = fst (optimizer_step ops t b l)"
  "optimizer (optimise ops b l t) = snd (optimizer_step ops t b l)"
  "model_training (optimise ops b l t) = model_training t"
  "backbone_frozen (optimise ops b l t) = backbone_frozen t"
  "mixup (optimise ops b l t) = mixup t"
  "train_loader (optimise ops b l t) = train_loader t"
  "valid_loader (optimise ops b l t) = valid_loader t"
  "device (optimise ops b l t) = device t"
  "cfg (optimise ops b l t) = cfg t"
  "hyperparams (optimise ops b l t) = hyperparams t"
  "cur_epoch (optimise ops b l t) = cur_epoch t"
  "num_iter (optimise ops b l t) = num_iter t"
  "adv_iter (optimise ops b l t) = adv_iter t"
  "fs (optimise ops b l t) = fs t"
  "events (optimise ops b l t) = events t @ [ZeroGrad, Backward l, ClipGradNorm 1, OptimizerStep]"
  by (simp_all add: optimise_def Let_def)

lemma log_train_step_fields [simp]:
  "model_state (log_train_step ops p g a b t) = model_state t"
  "model_training (log_train_step ops p g a b t) = model_training t"
  "backbone_frozen (log_train_step ops p g a b t) = backbone_frozen t"
  "optimizer (log_train_step ops p g a b t) = optimizer t"
  "mixup (log_train_step ops p g a b t) = mixup t"
  "train_loader (log_train_step ops p g a b t) = train_loader t"
  "valid_loader (log_train_step ops p g a b t) = valid_loader t"
  "device (log_train_step ops p g a b t) = device t"
  "cfg (log_train_step ops p g a b t) = cfg t"
  "hyperparams (log_train_step ops p g a b t) = hyperparams t"
  "cur_epoch (log_train_step ops p g a b t) = cur_epoch t"
  "num_iter (log_train_step ops p g a b t) = num_iter t"
  "adv_iter (log_train_step ops p g a b t) = adv_iter t"
  "fs (log_train_step ops p g a b t) = fs t"
  "backward_losses (events (log_train_step ops p g a b t)) = backward_losses (events t)"
  "optimizer_steps (events (log_train_step ops p g a b t)) = optimizer_steps (events t)"
  "saved_paths (events (log_train_step ops p g a b t)) = saved_paths (events t)"
  by (simp_all add: log_train_step_def split: prod.splits)

lemma log_adv_step_fields [simp]:
  "model_state (log_adv_step ops p g a s t) = model_state t"
  "model_training (log_adv_step ops p g a s t) = model_training t"
  "backbone_frozen (log_adv_step ops p g a s t) = backbone_frozen t"
  "optimizer (log_adv_step ops p g a s t) = optimizer t"
  "mixup (log_adv_step ops p g a s t) = mixup t"
  "train_loader (log_adv_step ops p g a s t) = train_loader t"
  "valid_loader (log_adv_step ops p g a s t) = valid_loader t"
  "device (log_adv_step ops p g a s t) = device t"
  "cfg (log_adv_step ops p g a s t) = cfg t"
  "hyperparams (log_adv_step ops p g a s t) = hyperparams t"
  "cur_epoch (log_adv_step ops p g a s t) = cur_epoch t"
  "num_iter (log_adv_step ops p g a s t) = num_iter t"
  "adv_iter (log_adv_step ops p g a s t) = adv_iter t"
  "fs (log_adv_step ops p g a s t) = fs t"
  "backward_losses (events (log_adv_step ops p g a s t)) = backward_losses (events t)"
  "optimizer_steps (events (log_adv_step ops p g a s t)) = optimizer_steps (events t)"
  "saved_paths (events (log_adv_step ops p g a s t)) = saved_paths (events t)"
  by (simp_all add: log_adv_step_def Let_def split: prod.splits option.splits)

subsection \<open>The loss of an adversarial training step\<close>

lemma adv_loss_multiplier_nonzero:
  "n \<noteq> 0 \<Longrightarrow> adv_loss_multiplier s n = Inr (min 1 (of_nat s / of_int n))"
  by (simp add: adv_loss_multiplier_def true_div_def py_min_def min_def)

text \<open>
  C2. With adversarial training on and a non-zero ramp length, a training batch that
  unpacks and gets through the forward pass is processed without error; the loss
  backpropagated for it is the binary cross-entropy of the leitmotif prediction plus
  the ramp multiplier times the sum of the cross-entropy of the permuted version
  prediction and, when the singing auxiliary is on, the binary cross-entropy of the
  singing prediction; and the adversarial step counter has gone up by one.
\<close>

theorem adversarial_batch_loss:
  assumes adv: "hp_train_adv (hyperparams t)"
    and n: "hp_adv_grad_iter (hyperparams t) \<noteq> 0"
    and b: "unpack4 b = Inr (cqt, leitmotif_gt, singing_gt, version_gt)"
    and f: "forward ops (model_state t) (model_training t) (to_dev (device t) cqt)
              = Inr (leitmotif_pred, singing_pred, version_pred)"
  shows "\<exists>t'. train_batch ops b t = (None, t')
     \<and> backward_losses (events t') = backward_losses (events t) @
          [bce ops leitmotif_pred (to_dev (device t) leitmotif_gt)
           + min 1 (of_nat (adv_iter t) / of_int (hp_adv_grad_iter (hyperparams t)))
             * (ce ops (permute ops version_pred) (to_dev (device t) version_gt)
                + (if cfg_train_singing (cfg t)
                   then bce ops singing_pred (to_dev (device t) singing_gt) else 0))]
     \<and> adv_iter t' = adv_iter t + 1"
  using adv b f
  by (simp add: train_batch_def Let_def adv_loss_multiplier_nonzero [OF n])

theorem adversarial_batch_loss_witness:
  "fst (train_batch ex_ops ex_batch (ex_trainer\<lparr>adv_iter := 2\<rparr>)) = None
   \<and> backward_losses (events (snd (train_batch ex_ops ex_batch (ex_trainer\<lparr>adv_iter := 2\<rparr>))))
       = [5 / 2]
   \<and> adv_iter (snd (train_batch ex_ops ex_batch (ex_trainer\<lparr>adv_iter := 2\<rparr>))) = 3"
proof -
  have "\<exists>t'. train_batch ex_ops ex_batch (ex_trainer\<lparr>adv_iter := 2\<rparr>) = (None, t')
          \<and> backward_losses (events t') = [5 / 2] \<and> adv_iter t' = 3"
    using adversarial_batch_loss [of "ex_trainer\<lparr>adv_iter := 2\<rparr>" ex_batch
        ex_tensor ex_tensor ex_tensor ex_tensor ex_ops
        "to_dev CUDA ex_tensor" "to_dev CUDA ex_tensor" "to_dev CUDA ex_tensor"]
    by (simp add: ex_defs unpack4_def to_dev_def)
  then show ?thesis by auto
qed

subsection \<open>Freezing in the submodule pre-training\<close>

lemma for_each_preserves:
  assumes step: "\<And>x u r u'. P u \<Longrightarrow> body x u = (r, u') \<Longrightarrow> P u'"
    and "P t" and "for_each body xs t = (r, t')"
  shows "P t'"
  using assms(2,3)
proof (induction xs arbitrary: t)
  case Nil
  then show ?case by simp
next
  case (Cons x xs)
  obtain r1 u1 where b: "body x t = (r1, u1)" by (cases "body x t")
  have p1: "P u1" using step [OF Cons.prems(1) b] .
  show ?case
  proof (cases r1)
    case None
    with b Cons.prems(2) have "for_each body xs u1 = (r, t')" by simp
    then show ?thesis using Cons.IH [OF p1] by simp
  next
    case (Some e)
    with b Cons.prems(2) have "t' = u1" by simp
    then show ?thesis using p1 by simp
  qed
qed

lemma mlp_batch_frozen:
  "mlp_batch ops s b u = (r, u') \<Longrightarrow> backbone_frozen u' = backbone_frozen u"
  by (auto simp: mlp_batch_def Let_def split: sum.splits prod.splits)

lemma mlp_epochs_frozen:
  assumes "backbone_frozen t"
    and "for_each (\<lambda>epoch u. for_each (mlp_batch ops s) (train_loader u) u) es t = (r, t')"
  shows "backbone_frozen t'"
proof (rule for_each_preserves [where P = backbone_frozen, OF _ assms(1) assms(2)])
  fix x :: nat and u r u'
  assume u: "backbone_frozen u"
    and run: "for_each (mlp_batch ops s) (train_loader u) u = (r, u')"
  show "backbone_frozen u'"
  proof (rule for_each_preserves [where P = backbone_frozen, OF _ u run])
    fix b v r' v'
    assume "backbone_frozen v" "mlp_batch ops s b v = (r', v')"
    then show "backbone_frozen v'" using mlp_batch_frozen by blast
  qed
qed

text \<open>
  C3, as the code has it. When \<open>_train_mlp_submodules\<close> returns normally the backbone
  is unfrozen; when an exception ends it, the backbone is still frozen.
\<close>

theorem submodules_unfreeze_on_return:
  assumes "train_mlp_submodules ops num_epochs train_singing t = (r, t')"
  shows "backbone_frozen t' = (r \<noteq> None)"
proof -
  let ?t3 = "t\<lparr>model_training := True, backbone_frozen := True, mixup := True\<rparr>"
  obtain r1 u1 where run:
    "for_each (\<lambda>epoch u. for_each (mlp_batch ops train_singing) (train_loader u) u)
       [0..<nat num_epochs] ?t3 = (r1, u1)"
    by (cases "for_each (\<lambda>epoch u. for_each (mlp_batch ops train_singing) (train_loader u) u)
       [0..<nat num_epochs] ?t3")
  have fr: "backbone_frozen u1"
    by (rule mlp_epochs_frozen [OF _ run]) simp
  show ?thesis
    using assms run fr
    by (cases r1) (auto simp: train_mlp_submodules_def Let_def)
qed

theorem submodules_unfreeze_on_return_witness:
  "fst (train_mlp_submodules ex_ops 1 False ex_trainer) = None
   \<and> backbone_frozen (snd (train_mlp_submodules ex_ops 1 False ex_trainer)) = False"
  using submodules_unfreeze_on_return [of ex_ops 1 False ex_trainer
      "fst (train_mlp_submodules ex_ops 1 False ex_trainer)"
      "snd (train_mlp_submodules ex_ops 1 False ex_trainer)"]
  by (simp add: train_mlp_submodules_def mlp_batch_def unpack4_def Let_def ex_defs)

text \<open>
  C3 as stated fails: a batch of two tensors makes the unpacking raise \<open>ValueError\<close>
  in the loop, and the routine is left with the backbone frozen.
\<close>

theorem submodules_exception_leaves_frozen:
  "fst (train_mlp_submodules ex_ops 1 False (ex_trainer\<lparr>train_loader := [ex_short_batch]\<rparr>))
     = Some (ValueError ''not enough values to unpack'')
   \<and> backbone_frozen (ex_trainer\<lparr>train_loader := [ex_short_batch]\<rparr>) = False
   \<and> backbone_frozen
        (snd (train_mlp_submodules ex_ops 1 False (ex_trainer\<lparr>train_loader := [ex_short_batch]\<rparr>)))
      = True"
  by (simp add: train_mlp_submodules_def mlp_batch_def unpack4_def Let_def ex_defs
      ex_short_batch_def)

subsection \<open>The validation phase\<close>

text \<open>
  C7. Whatever the validation phase of an epoch does (it may end with an exception), the
  model's parameter values and the optimizer are afterwards what they were before, the
  global step counter and the adversarial step counter are unchanged, and no optimizer
  step and no backward pass has been added to the trace.
\<close>

theorem validation_frame:
  assumes "validate ops t = (r, t')"
  shows "model_state t' = model_state t \<and> optimizer t' = optimizer t
       \<and> num_iter t' = num_iter t \<and> adv_iter t' = adv_iter t
       \<and> optimizer_steps (events t') = optimizer_steps (events t)
       \<and> backward_losses (events t') = backward_losses (events t)"
  using assms
  by (auto simp: validate_def Let_def split: sum.splits prod.splits if_splits)

theorem validation_frame_witness:
  "fst (validate ex_ops (ex_trainer\<lparr>valid_loader := [ex_batch], cfg := ex_cfg\<lparr>cfg_log_to_wandb := True\<rparr>\<rparr>)) = None
   \<and> model_state (snd (validate ex_ops (ex_trainer\<lparr>valid_loader := [ex_batch], cfg := ex_cfg\<lparr>cfg_log_to_wandb := True\<rparr>\<rparr>)))
       = model_state ex_trainer
   \<and> num_iter (snd (validate ex_ops (ex_trainer\<lparr>valid_loader := [ex_batch], cfg := ex_cfg\<lparr>cfg_log_to_wandb := True\<rparr>\<rparr>))) = 0
   \<and> events (snd (validate ex_ops (ex_trainer\<lparr>valid_loader := [ex_batch], cfg := ex_cfg\<lparr>cfg_log_to_wandb := True\<rparr>\<rparr>)))
       = [WandbLog [(''valid/loss'', 1), (''valid/precision'', 0), (''valid/recall'', 0), (''valid/f1'', 0)] None]"
  using validation_frame [of ex_ops "ex_trainer\<lparr>valid_loader := [ex_batch], cfg := ex_cfg\<lparr>cfg_log_to_wandb := True\<rparr>\<rparr>"
      "fst (validate ex_ops (ex_trainer\<lparr>valid_loader := [ex_batch], cfg := ex_cfg\<lparr>cfg_log_to_wandb := True\<rparr>\<rparr>))"
      "snd (validate ex_ops (ex_trainer\<lparr>valid_loader := [ex_batch], cfg := ex_cfg\<lparr>cfg_log_to_wandb := True\<rparr>\<rparr>))"]
  by (simp add: validate_def valid_batch_def unpack4_def true_div_def Let_def ex_defs emit_def to_dev_def)




subsection \<open>Checkpoint paths are injective in the epoch\<close>








subsection \<open>What the loops leave unchanged, and what an epoch writes\<close>




lemma train_batch_frame:
  assumes "train_batch ops b u = (r, u')"
  shows "cfg u' = cfg u \<and> hyperparams u' = hyperparams u
       \<and> train_loader u' = train_loader u \<and> valid_loader u' = valid_loader u
       \<and> device u' = device u \<and> cur_epoch u' = cur_epoch u \<and> fs u' = fs u
       \<and> saved_paths (events u') = saved_paths (events u)"
  using assms
  by (auto simp: train_batch_def Let_def split: sum.splits prod.splits if_splits option.splits)

lemma train_batches_frame:
  assumes "for_each (train_batch ops) bs u = (r, u')"
  shows "cfg u' = cfg u \<and> hyperparams u' = hyperparams u
       \<and> train_loader u' = train_loader u \<and> valid_loader u' = valid_loader u
       \<and> device u' = device u \<and> cur_epoch u' = cur_epoch u \<and> fs u' = fs u
       \<and> saved_paths (events u') = saved_paths (events u)"
proof (rule for_each_preserves [where body = "train_batch ops" and xs = bs and t = u and r = r
      and P = "\<lambda>v. cfg v = cfg u \<and> hyperparams v = hyperparams u
       \<and> train_loader v = train_loader u \<and> valid_loader v = valid_loader u
       \<and> device v = device u \<and> cur_epoch v = cur_epoch u \<and> fs v = fs u
       \<and> saved_paths (events v) = saved_paths (events u)"])
  show "for_each (train_batch ops) bs u = (r, u')" by (rule assms)
next
  fix x v r' v'
  assume "cfg v = cfg u \<and> hyperparams v = hyperparams u
       \<and> train_loader v = train_loader u \<and> valid_loader v = valid_loader u
       \<and> device v = device u \<and> cur_epoch v = cur_epoch u \<and> fs v = fs u
       \<and> saved_paths (events v) = saved_paths (events u)"
    and "train_batch ops x v = (r', v')"
  then show "cfg v' = cfg u \<and> hyperparams v' = hyperparams u
       \<and> train_loader v' = train_loader u \<and> valid_loader v' = valid_loader u
       \<and> device v' = device u \<and> cur_epoch v' = cur_epoch u \<and> fs v' = fs u
       \<and> saved_paths (events v') = saved_paths (events u)"
    using train_batch_frame [of ops x v r' v'] by simp
qed simp

lemma validate_static:
  assumes "validate ops u = (r, u')"
  shows "cfg u' = cfg u \<and> hyperparams u' = hyperparams u
       \<and> train_loader u' = train_loader u \<and> valid_loader u' = valid_loader u
       \<and> device u' = device u \<and> cur_epoch u' = cur_epoch u \<and> fs u' = fs u
       \<and> saved_paths (events u') = saved_paths (events u)"
  using assms
  by (auto simp: validate_def Let_def split: sum.splits prod.splits if_splits)

lemma save_checkpoint_fields:
  "cfg (save_checkpoint u) = cfg u"
  "hyperparams (save_checkpoint u) = hyperparams u"
  "train_loader (save_checkpoint u) = train_loader u"
  "valid_loader (save_checkpoint u) = valid_loader u"
  "device (save_checkpoint u) = device u"
  "cur_epoch (save_checkpoint u) = cur_epoch u"
  "model_state (save_checkpoint u) = model_state u"
  "optimizer (save_checkpoint u) = optimizer u"
  "fs (save_checkpoint u) = (fs u)(ckpt_path (cfg u) (cur_epoch u) \<mapsto>
      \<lparr>ck_epoch = cur_epoch u, ck_model = model_state u, ck_optimizer = optimizer u\<rparr>)"
  "saved_paths (events (save_checkpoint u)) = saved_paths (events u) @ [ckpt_path (cfg u) (cur_epoch u)]"
  by (simp_all add: save_checkpoint_def Let_def)



lemma train_epoch_failed:
  assumes "train_epoch ops e u = (Some x, u')"
  shows "fs u' = fs u \<and> saved_paths (events u') = saved_paths (events u)"
proof -
  let ?u3 = "u\<lparr>cur_epoch := e, model_training := True, mixup := True\<rparr>"
  obtain r1 u4 where tb: "for_each (train_batch ops) (train_loader ?u3) ?u3 = (r1, u4)"
    by (cases "for_each (train_batch ops) (train_loader ?u3) ?u3")
  note f1 = train_batches_frame [OF tb]
  show ?thesis
  proof (cases r1)
    case (Some x)
    then show ?thesis using assms tb f1 by (simp add: train_epoch_def Let_def)
  next
    case None
    obtain r2 u5 where v: "validate ops u4 = (r2, u5)" by (cases "validate ops u4")
    note f2 = validate_static [OF v]
    show ?thesis using assms tb f1 v f2 None
      by (cases r2) (auto simp: train_epoch_def Let_def save_checkpoint_fields)
  qed
qed


subsection \<open>Runs that complete\<close>










lemma epoch_count: "length [i..j] = nat (j - i + 1)"
  by simp

subsection \<open>One checkpoint per epoch\<close>




subsection \<open>Resuming from a checkpoint\<close>












subsection \<open>Checkpoint round trip\<close>

lemma entry_data_to [simp]: "entry_data (entry_to d v) = entry_data v"
  by (cases v) (simp_all add: entry_data_def entry_to_def to_dev_def)





subsection \<open>Substring test\<close>

lemma str_in_iff: "str_in sub s \<longleftrightarrow> (\<exists>pre suf. s = pre @ sub @ suf)"
proof (induction s)
  case Nil
  then show ?case by auto
next
  case (Cons c cs)
  show ?case
  proof
    assume "str_in sub (c # cs)"
    then consider "take (length sub) (c # cs) = sub" | "str_in sub cs" by auto
    then show "\<exists>pre suf. c # cs = pre @ sub @ suf"
    proof cases
      case 1
      then have "c # cs = [] @ sub @ drop (length sub) (c # cs)"
        by (metis append_Nil append_take_drop_id)
      then show ?thesis by blast
    next
      case 2
      then obtain pre suf where "cs = pre @ sub @ suf" using Cons.IH by blast
      then have "c # cs = (c # pre) @ sub @ suf" by simp
      then show ?thesis by blast
    qed
  next
    assume "\<exists>pre suf. c # cs = pre @ sub @ suf"
    then obtain pre suf where e: "c # cs = pre @ sub @ suf" by blast
    show "str_in sub (c # cs)"
    proof (cases pre)
      case Nil
      then have "take (length sub) (c # cs) = sub" using e by simp
      then show ?thesis by simp
    next
      case (Cons d pre')
      then have "cs = pre' @ sub @ suf" using e by simp
      then have "str_in sub cs" using Cons.IH by blast
      then show ?thesis by simp
    qed
  qed
qed

subsection \<open>Parameter groups\<close>

lemma distinct_snd_unique:
  "distinct (map snd xs) \<Longrightarrow> (a, p) \<in> set xs \<Longrightarrow> (b, p) \<in> set xs \<Longrightarrow> a = b"
  by (induction xs) (auto simp: image_iff)

lemma mset_filter_split:
  "mset (map f (filter P xs)) + mset (map f (filter (\<lambda>x. \<not> P x) xs)) = mset (map f xs)"
  by (induction xs) simp_all

lemma params_partition:
  "mset (mlp_params nps) + mset (backbone_params nps) = mset (map snd nps)"
  unfolding mlp_params_def backbone_params_def
  using mset_filter_split [of snd "\<lambda>(name, param). str_in ''mlp'' name" nps]
  by (simp add: case_prod_beta)

lemma mlp_params_member:
  assumes "distinct (map snd nps)" and "(name, p) \<in> set nps"
  shows "p \<in> set (mlp_params nps) \<longleftrightarrow> str_in ''mlp'' name"
proof
  assume "p \<in> set (mlp_params nps)"
  then obtain name' where "(name', p) \<in> set nps" "str_in ''mlp'' name'"
    by (auto simp: mlp_params_def)
  then show "str_in ''mlp'' name"
    using distinct_snd_unique [OF assms(1) assms(2)] by blast
next
  assume "str_in ''mlp'' name"
  then show "p \<in> set (mlp_params nps)"
    using assms(2) by (force simp: mlp_params_def)
qed

lemma backbone_params_member:
  assumes "distinct (map snd nps)" and "(name, p) \<in> set nps"
  shows "p \<in> set (backbone_params nps) \<longleftrightarrow> \<not> str_in ''mlp'' name"
proof
  assume "p \<in> set (backbone_params nps)"
  then obtain name' where "(name', p) \<in> set nps" "\<not> str_in ''mlp'' name'"
    by (auto simp: backbone_params_def)
  then show "\<not> str_in ''mlp'' name"
    using distinct_snd_unique [OF assms(1) assms(2)] by blast
next
  assume "\<not> str_in ''mlp'' name"
  then show "p \<in> set (backbone_params nps)"
    using assms(2) by (force simp: backbone_params_def)
qed

text \<open>
  C8. The optimizer that \<open>main\<close> builds has exactly two parameter groups: the
  parameters whose name contains \<open>mlp\<close>, with learning rate \<open>lr * adv_lr_multiplier\<close>,
  and the others, with learning rate \<open>lr\<close>. The two lists together hold every named
  parameter exactly once, and (the named parameters being distinct objects) they are
  disjoint, membership being decided by the name alone.
\<close>

theorem parameter_groups:
  assumes d: "distinct (map snd (named_parameters model))"
  shows "param_groups (make_optimizer hp model) =
           [\<lparr>pg_params = mlp_params (named_parameters model),
             pg_lr = hp_lr hp * hp_adv_lr_multiplier hp\<rparr>,
            \<lparr>pg_params = backbone_params (named_parameters model), pg_lr = hp_lr hp\<rparr>]
       \<and> mset (mlp_params (named_parameters model))
           + mset (backbone_params (named_parameters model))
           = mset (map snd (named_parameters model))
       \<and> set (mlp_params (named_parameters model))
           \<inter> set (backbone_params (named_parameters model)) = {}
       \<and> (\<forall>name p. (name, p) \<in> set (named_parameters model) \<longrightarrow>
             (p \<in> set (mlp_params (named_parameters model))
                \<longleftrightarrow> (\<exists>pre suf. name = pre @ ''mlp'' @ suf))
           \<and> (p \<in> set (backbone_params (named_parameters model))
                \<longleftrightarrow> \<not> (\<exists>pre suf. name = pre @ ''mlp'' @ suf)))"
proof -
  let ?nps = "named_parameters model"
  have a: "param_groups (make_optimizer hp model) =
           [\<lparr>pg_params = mlp_params ?nps, pg_lr = hp_lr hp * hp_adv_lr_multiplier hp\<rparr>,
            \<lparr>pg_params = backbone_params ?nps, pg_lr = hp_lr hp\<rparr>]"
    by (simp add: make_optimizer_def Adam_def)
  have c: "set (mlp_params ?nps) \<inter> set (backbone_params ?nps) = {}"
  proof (rule ccontr)
    assume "set (mlp_params ?nps) \<inter> set (backbone_params ?nps) \<noteq> {}"
    then obtain p where p1: "p \<in> set (mlp_params ?nps)" and p2: "p \<in> set (backbone_params ?nps)"
      by blast
    from p1 obtain name where n: "(name, p) \<in> set ?nps" by (auto simp: mlp_params_def)
    show False
      using mlp_params_member [OF d n] backbone_params_member [OF d n] p1 p2 by simp
  qed
  have e: "\<forall>name p. (name, p) \<in> set ?nps \<longrightarrow>
             (p \<in> set (mlp_params ?nps) \<longleftrightarrow> (\<exists>pre suf. name = pre @ ''mlp'' @ suf))
           \<and> (p \<in> set (backbone_params ?nps) \<longleftrightarrow> \<not> (\<exists>pre suf. name = pre @ ''mlp'' @ suf))"
    using mlp_params_member [OF d] backbone_params_member [OF d]
    by (simp only: str_in_iff [symmetric]) blast
  show ?thesis using a params_partition [of ?nps] c e by blast
qed

theorem parameter_groups_witness:
  "distinct (map snd (named_parameters ex_net))
   \<and> param_groups (make_optimizer ex_hp ex_net)
       = [\<lparr>pg_params = [1, 3], pg_lr = 1 / 100\<rparr>, \<lparr>pg_params = [0, 2], pg_lr = 1 / 1000\<rparr>]"
proof -
  have h: "distinct (map snd (named_parameters ex_net))" by (simp add: ex_net_def)
  show ?thesis
    using h parameter_groups [OF h, of ex_hp]
    by (simp add: ex_net_def ex_hp_def mlp_params_def backbone_params_def)
qed

subsection \<open>Configuration errors\<close>

text \<open>
  C9. When the split selector is neither \<open>version\<close> nor \<open>act\<close>, or the model selector
  neither \<open>RNN\<close> nor \<open>CNN\<close>, \<open>main\<close> ends with \<open>ValueError\<close>, the checkpoint files are
  what they were, and the trace is empty: no optimizer step, no checkpoint, no epoch.
\<close>

theorem invalid_configuration:
  assumes "cfg_split c \<notin> {''version'', ''act''} \<or> cfg_model c \<notin> {''RNN'', ''CNN''}"
  shows "\<exists>msg. main ops w c hp files = (Some (ValueError msg), files, [])"
  using assms
  by (auto simp: main_def select_split_def select_model_def Let_def split: prod.splits option.splits)

theorem invalid_configuration_witness:
  "main ex_ops ex_world (ex_cfg\<lparr>cfg_split := ''random''\<rparr>) ex_hp Map.empty
     = (Some (ValueError ''Invalid split method''), Map.empty, [])
   \<and> main ex_ops ex_world (ex_cfg\<lparr>cfg_model := ''MLP''\<rparr>) ex_hp Map.empty
     = (Some (ValueError ''Invalid model name''), Map.empty, [])"
  using invalid_configuration [of "ex_cfg\<lparr>cfg_split := ''random''\<rparr>" ex_ops ex_world ex_hp Map.empty]
    invalid_configuration [of "ex_cfg\<lparr>cfg_model := ''MLP''\<rparr>" ex_ops ex_world ex_hp Map.empty]
  by (simp add: main_def select_split_def select_model_def Let_def ex_cfg_def ex_world_def)

lemma main_valid_configuration:
  assumes "select_split w c = Inr (train_l, valid_l)" and "select_model w c hp = Inr model"
  shows "main ops w c hp files =
           (case train ops (Trainer model (make_optimizer hp model) (dataset_mixup w)
                             train_l valid_l (if cuda_is_available w then CUDA else CPU)
                             c hp files) of
              (r, t') \<Rightarrow> (r, fs t', events t'))"
  using assms by (simp add: main_def Let_def)

end
